theory Spec2Isabelle
  imports Main "HOL-Library.Word"
begin

section \<open>Data model\<close>

text \<open>
  The orchestrator pulls messages from an SQS queue, checks each one with an integrity
  Lambda, scans a DynamoDB table for Lambdas marked healthy, picks one, forwards the
  message to it and deletes the message from the queue when all of that succeeded.

  The AWS SDK clients, \<open>encoding/json\<close>, \<open>attributevalue\<close> and \<open>math/rand\<close> are
  libraries outside the repository.  They are parameters of the model (the record
  \<open>env\<close> below); the repository's own functions are translated one by one and thread
  the list of external calls made so far (the history) through the computation.
  Log output is not modelled.
\<close>

type_synonym bytes = string

text \<open>
  A decoded JSON value held in a Go \<open>any\<close>: nil, bool, float64, string, \<open>[]any\<close> or
  \<open>map[string]any\<close>.  The pipeline never computes with a number, so a float64 is carried
  as its 64 bits; a map is carried as its list of entries.
\<close>

datatype go_any =
    AnyNil
  | AnyBool bool
  | AnyFloat64 "64 word"
  | AnyString string
  | AnySlice "go_any list"
  | AnyMap "(string \<times> go_any) list"

text \<open>An error value handed back by a library call.\<close>

datatype sdk_error = SdkError string

text \<open>\<open>types.Message\<close> of the SQS SDK: the three pointer fields the consumer reads.\<close>

record Message =
  Body :: "string option"
  ReceiptHandle :: "string option"
  MessageId :: "string option"

text \<open>\<open>SNSWrapper\<close> (consumer.go).\<close>

record SNSWrapper =
  sns_Type :: string
  sns_Message :: string
  sns_MessageId :: string
  sns_TopicArn :: string
  sns_Timestamp :: string

text \<open>\<open>LambdaResponse\<close> (lambda.go).\<close>

record LambdaResponse =
  StatusCode :: int
  ResponseBody :: go_any

text \<open>The fields of \<open>lambda.InvokeOutput\<close> that \<open>InvokeSync\<close> reads.\<close>

record InvokeOutput =
  FunctionError :: "string option"
  Payload :: bytes

text \<open>\<open>Status\<close> is a string type with two named constants.\<close>

type_synonym Status = string

definition Healthy :: Status where
  "Healthy = ''saludable''"

definition Unhealthy :: Status where
  "Unhealthy = ''fallando''"

text \<open>The registry row \<open>Lambda\<close>.\<close>

record Lambda =
  ID :: string
  ARN :: string
  URL :: string
  Status :: Status
  Name :: string
  LastHeartBeat :: string

text \<open>\<open>types.AttributeValue\<close> of the DynamoDB SDK and a scanned item.\<close>

datatype AttributeValue =
    AttrS string
  | AttrN string
  | AttrBOOL bool
  | AttrNULL
  | AttrB bytes
  | AttrL "AttributeValue list"
  | AttrM "(string \<times> AttributeValue) list"

type_synonym item = "(string \<times> AttributeValue) list"

text \<open>
  The consumer: the queue URL and the table name of its DynamoDB client.  The client
  handles themselves are the external world.
\<close>

record SQSConsumer =
  queueURL :: string
  tableName :: string

definition IntegrityLambda :: string where
  "IntegrityLambda = ''arn:aws:lambda:us-east-1:652276263254:function:validacionDatos-py''"

subsection \<open>External calls\<close>

text \<open>
  One constructor per call that leaves the process:
  \<^item> \<open>SqsReceiveMessage url max wait visibility\<close>,
  \<^item> \<open>Sleep seconds\<close>,
  \<^item> \<open>SqsDeleteMessage url receiptHandle\<close>,
  \<^item> \<open>LambdaInvoke functionName payload\<close> (invocation type RequestResponse),
  \<^item> \<open>DynamoScan table\<close> (no filter expression),
  \<^item> \<open>RandIntn n\<close>.
\<close>

datatype event =
    SqsReceiveMessage string nat nat nat
  | Sleep nat
  | SqsDeleteMessage string string
  | LambdaInvoke string bytes
  | DynamoScan string
  | RandIntn nat

text \<open>
  The external world.  A service answers a call as a function of the history of calls,
  the call being answered last; so two calls with the same arguments may be answered
  differently.  The decoders are functions of their input alone.
  \<open>rand_source\<close> is the number the global generator draws; \<open>rand.Intn n\<close> reduces it
  into \<open>[0, n)\<close>.
\<close>

record env =
  sqs_ReceiveMessage :: "event list \<Rightarrow> sdk_error + Message list"
  lambda_Invoke :: "event list \<Rightarrow> sdk_error + InvokeOutput"
  dynamodb_Scan :: "event list \<Rightarrow> sdk_error + item list"
  rand_source :: "event list \<Rightarrow> nat"
  json_Marshal :: "go_any \<Rightarrow> sdk_error + bytes"
  json_Unmarshal_any :: "bytes \<Rightarrow> sdk_error + go_any"
  json_Unmarshal_LambdaResponse :: "bytes \<Rightarrow> sdk_error + LambdaResponse"
  json_Unmarshal_SNSWrapper :: "bytes \<Rightarrow> sdk_error + SNSWrapper"
  json_Unmarshal_map :: "bytes \<Rightarrow> sdk_error + (string \<times> go_any) list"
  attributevalue_UnmarshalMap :: "item \<Rightarrow> sdk_error + Lambda"

subsection \<open>Errors\<close>

text \<open>The three error returns of \<open>InvokeSync\<close>.\<close>

datatype invoke_error =
    ErrMarshalingPayload sdk_error
  | ErrInvokingLambda sdk_error
  | ErrLambdaFunction string bytes

text \<open>The error returns of \<open>handleBusinessLogic\<close>, in source order.\<close>

datatype logic_error =
    ErrCallingIntegrityLambda invoke_error
  | ErrUnmarshallingJson sdk_error
  | ErrNotMatchingSignatures LambdaResponse
  | ErrScan sdk_error
  | ErrUnmarshalItem sdk_error
  | ErrNoHealthyLambdas
  | ErrInvokingSelected string invoke_error

section \<open>lambda.go\<close>

text \<open>
  \<open>InvokeSync\<close>: marshal the payload, invoke synchronously, fail on a transport error or
  on a function error carried by the response, else return the response payload.
\<close>

definition InvokeSync ::
  "env \<Rightarrow> event list \<Rightarrow> string \<Rightarrow> go_any \<Rightarrow> (invoke_error + bytes) \<times> event list" where
  "InvokeSync e tr functionName payload =
     (case json_Marshal e payload of
        Inl err \<Rightarrow> (Inl (ErrMarshalingPayload err), tr)
      | Inr payloadBytes \<Rightarrow>
          (let tr' = tr @ [LambdaInvoke functionName payloadBytes] in
           case lambda_Invoke e tr' of
             Inl err \<Rightarrow> (Inl (ErrInvokingLambda err), tr')
           | Inr result \<Rightarrow>
               (case FunctionError result of
                  Some fe \<Rightarrow> (Inl (ErrLambdaFunction fe (Payload result)), tr')
                | None \<Rightarrow> (Inr (Payload result), tr'))))"

section \<open>DynamoDB client\<close>

text \<open>\<open>Scan\<close> with a nil filter expression: the input carries the table name only.\<close>

definition Scan :: "env \<Rightarrow> SQSConsumer \<Rightarrow> event list \<Rightarrow> (sdk_error + item list) \<times> event list" where
  "Scan e c tr =
     (let tr' = tr @ [DynamoScan (tableName c)] in (dynamodb_Scan e tr', tr'))"

section \<open>The consumer with the pipeline\<close>

text \<open>
  \<open>deleteMessage\<close>: without a receipt handle nothing is sent; otherwise one
  \<open>DeleteMessage\<close> call, whose result only chooses the log line.
\<close>

definition deleteMessage :: "env \<Rightarrow> SQSConsumer \<Rightarrow> event list \<Rightarrow> Message \<Rightarrow> event list" where
  "deleteMessage e c tr message =
     (case ReceiptHandle message of
        None \<Rightarrow> tr
      | Some h \<Rightarrow> tr @ [SqsDeleteMessage (queueURL c) h])"

text \<open>
  The loop over the scanned items in \<open>handleBusinessLogic\<close>: the first item that does not
  unmarshal ends the loop with its error; an item whose status is \<open>Healthy\<close> is appended.
\<close>

fun filterItems :: "env \<Rightarrow> item list \<Rightarrow> Lambda list \<Rightarrow> sdk_error + Lambda list" where
  "filterItems e [] lambdas = Inr lambdas"
| "filterItems e (item # items) lambdas =
     (case attributevalue_UnmarshalMap e item of
        Inl err \<Rightarrow> Inl err
      | Inr lambda \<Rightarrow>
          filterItems e items (if Status lambda = Healthy then lambdas @ [lambda] else lambdas))"

text \<open>\<open>rand.Intn n\<close> for \<open>0 < n\<close>: a draw of the global generator, reduced into \<open>[0, n)\<close>.\<close>

definition rand_Intn :: "env \<Rightarrow> event list \<Rightarrow> nat \<Rightarrow> nat \<times> event list" where
  "rand_Intn e tr n = (let tr' = tr @ [RandIntn n] in (rand_source e tr' mod n, tr'))"

text \<open>
  The \<open>switch len(lambdas)\<close> of \<open>handleBusinessLogic\<close>: no candidate is an error, one
  candidate is taken as it is, among several the index comes from \<open>rand.Intn\<close>.
\<close>

fun selectLambda :: "env \<Rightarrow> event list \<Rightarrow> Lambda list \<Rightarrow> (logic_error + Lambda) \<times> event list" where
  "selectLambda e tr [] = (Inl ErrNoHealthyLambdas, tr)"
| "selectLambda e tr [l] = (Inr l, tr)"
| "selectLambda e tr lambdas =
     (case rand_Intn e tr (length lambdas) of (i, tr') \<Rightarrow> (Inr (lambdas ! i), tr'))"

text \<open>
  \<open>handleBusinessLogic\<close>: integrity gate, registry scan with health filter, selection,
  dispatch.  The result is the Go error (\<open>None\<close> for nil) and the extended history.
\<close>

definition handleBusinessLogic ::
  "env \<Rightarrow> SQSConsumer \<Rightarrow> event list \<Rightarrow> go_any \<Rightarrow> logic_error option \<times> event list" where
  "handleBusinessLogic e c tr msg =
     (case InvokeSync e tr IntegrityLambda msg of
        (Inl err, tr1) \<Rightarrow> (Some (ErrCallingIntegrityLambda err), tr1)
      | (Inr payload, tr1) \<Rightarrow>
          (case json_Unmarshal_LambdaResponse e payload of
             Inl err \<Rightarrow> (Some (ErrUnmarshallingJson err), tr1)
           | Inr integrity \<Rightarrow>
               if StatusCode integrity \<noteq> 200
               then (Some (ErrNotMatchingSignatures integrity), tr1)
               else
                 (case Scan e c tr1 of
                    (Inl err, tr2) \<Rightarrow> (Some (ErrScan err), tr2)
                  | (Inr items, tr2) \<Rightarrow>
                      (case filterItems e items [] of
                         Inl err \<Rightarrow> (Some (ErrUnmarshalItem err), tr2)
                       | Inr lambdas \<Rightarrow>
                           (case selectLambda e tr2 lambdas of
                              (Inl err, tr3) \<Rightarrow> (Some err, tr3)
                            | (Inr selectedLambda, tr3) \<Rightarrow>
                                (case InvokeSync e tr3 (ARN selectedLambda) msg of
                                   (Inl err, tr4) \<Rightarrow>
                                     (Some (ErrInvokingSelected (ARN selectedLambda) err), tr4)
                                 | (Inr responseBytes, tr4) \<Rightarrow> (None, tr4)))))))"

text \<open>
  \<open>processMessage\<close> (direct format): a nil body and a body that does not parse are
  deleted at once; a business-logic error leaves the message; success deletes it.
\<close>

definition processMessage :: "env \<Rightarrow> SQSConsumer \<Rightarrow> event list \<Rightarrow> Message \<Rightarrow> event list" where
  "processMessage e c tr message =
     (case Body message of
        None \<Rightarrow> deleteMessage e c tr message
      | Some body \<Rightarrow>
          (case json_Unmarshal_any e body of
             Inl err \<Rightarrow> deleteMessage e c tr message
           | Inr appMessage \<Rightarrow>
               (case handleBusinessLogic e c tr appMessage of
                  (Some err, tr') \<Rightarrow> tr'
                | (None, tr') \<Rightarrow> deleteMessage e c tr' message)))"

text \<open>The \<open>for ... range result.Messages\<close> loop of \<open>pollMessages\<close>.\<close>

fun processMessages :: "env \<Rightarrow> SQSConsumer \<Rightarrow> event list \<Rightarrow> Message list \<Rightarrow> event list" where
  "processMessages e c tr [] = tr"
| "processMessages e c tr (message # messages) =
     processMessages e c (processMessage e c tr message) messages"

text \<open>
  \<open>pollMessages\<close>: one receive of at most 10 messages (20 s long poll, 30 s visibility
  timeout); on an error a 5 s sleep and return; otherwise the loop over the batch.
\<close>

definition pollMessages :: "env \<Rightarrow> SQSConsumer \<Rightarrow> event list \<Rightarrow> event list" where
  "pollMessages e c tr =
     (let tr' = tr @ [SqsReceiveMessage (queueURL c) 10 20 30] in
      case sqs_ReceiveMessage e tr' of
        Inl err \<Rightarrow> tr' @ [Sleep 5]
      | Inr messages \<Rightarrow> processMessages e c tr' messages)"

section \<open>The consumer of consumer.go (SNS envelope)\<close>

text \<open>\<open>handleBusinessLogic\<close> of consumer.go only logs and returns nil.\<close>

definition handleBusinessLogic_sns :: "(string \<times> go_any) list \<Rightarrow> logic_error option" where
  "handleBusinessLogic_sns msg = None"

text \<open>
  \<open>processMessage\<close> of consumer.go: the body is parsed as an SNS wrapper, then the
  wrapper's \<open>Message\<close> field is parsed as a JSON object.
\<close>

definition processMessage_sns :: "env \<Rightarrow> SQSConsumer \<Rightarrow> event list \<Rightarrow> Message \<Rightarrow> event list" where
  "processMessage_sns e c tr message =
     (case Body message of
        None \<Rightarrow> deleteMessage e c tr message
      | Some body \<Rightarrow>
          (case json_Unmarshal_SNSWrapper e body of
             Inl err \<Rightarrow> deleteMessage e c tr message
           | Inr snsWrapper \<Rightarrow>
               (case json_Unmarshal_map e (sns_Message snsWrapper) of
                  Inl err \<Rightarrow> deleteMessage e c tr message
                | Inr appMessage \<Rightarrow>
                    (case handleBusinessLogic_sns appMessage of
                       Some err \<Rightarrow> tr
                     | None \<Rightarrow> deleteMessage e c tr message))))"

section \<open>Observing a run\<close>

text \<open>The calls a computation added to the history \<open>tr\<close>.\<close>

definition emitted :: "event list \<Rightarrow> event list \<Rightarrow> event list" where
  "emitted tr tr' = drop (length tr) tr'"

section \<open>A test double of the external world\<close>

text \<open>
  A fixed world for running the pipeline on concrete inputs: an order message, an
  integrity Lambda that accepts, a registry with two healthy workers and one failing
  worker, and decoders given as tables over the texts used here.  The variants below
  change one service each: an integrity Lambda that rejects, a registry without a
  healthy worker or with a malformed item, a worker that fails, a receive that fails,
  and bodies that are not JSON, a bare number, or an SNS envelope.
\<close>

definition order_body :: bytes where
  "order_body = ''{orderId:123,amount:42}''"

definition order_payload :: go_any where
  "order_payload =
     AnyMap [(''orderId'', AnyString ''123''), (''amount'', AnyFloat64 0x4045000000000000)]"

definition order_message :: Message where
  "order_message = \<lparr>Body = Some order_body, ReceiptHandle = Some ''rh-1'', MessageId = Some ''m-1''\<rparr>"

definition accept_text :: bytes where
  "accept_text = ''{statusCode:200,body:ok}''"

definition reject_text :: bytes where
  "reject_text = ''{statusCode:500,body:tampered}''"

definition done_text :: bytes where
  "done_text = ''{statusCode:200,body:{result:done}}''"

definition item_A :: item where
  "item_A = [(''id'', AttrS ''A''), (''arn'', AttrS ''arn:A''),
             (''estadoSalud'', AttrS ''saludable''), (''nombreLambda'', AttrS ''worker-a'')]"

definition item_B :: item where
  "item_B = [(''id'', AttrS ''B''), (''arn'', AttrS ''arn:B''),
             (''estadoSalud'', AttrS ''saludable''), (''nombreLambda'', AttrS ''worker-b'')]"

definition item_C :: item where
  "item_C = [(''id'', AttrS ''C''), (''arn'', AttrS ''arn:C''),
             (''estadoSalud'', AttrS ''fallando''), (''nombreLambda'', AttrS ''worker-c'')]"

definition item_bad :: item where
  "item_bad = [(''id'', AttrS ''D''), (''arn'', AttrBOOL True),
               (''estadoSalud'', AttrS ''saludable''), (''nombreLambda'', AttrS ''worker-d'')]"

definition test_UnmarshalMap :: "item \<Rightarrow> sdk_error + Lambda" where
  "test_UnmarshalMap it =
     (case (map_of it ''id'', map_of it ''arn'', map_of it ''estadoSalud'', map_of it ''nombreLambda'') of
        (Some (AttrS i), Some (AttrS a), Some (AttrS s), Some (AttrS n)) \<Rightarrow>
          Inr \<lparr>ID = i, ARN = a, URL = [], Status = s, Name = n, LastHeartBeat = []\<rparr>
      | _ \<Rightarrow> Inl (SdkError ''unmarshal failed''))"

definition lambda_A :: Lambda where
  "lambda_A = \<lparr>ID = ''A'', ARN = ''arn:A'', URL = [], Status = ''saludable'', Name = ''worker-a'', LastHeartBeat = []\<rparr>"

definition lambda_B :: Lambda where
  "lambda_B = \<lparr>ID = ''B'', ARN = ''arn:B'', URL = [], Status = ''saludable'', Name = ''worker-b'', LastHeartBeat = []\<rparr>"

definition test_Invoke :: "event list \<Rightarrow> sdk_error + InvokeOutput" where
  "test_Invoke tr =
     (case rev tr of
        LambdaInvoke fn p # _ \<Rightarrow>
          Inr \<lparr>FunctionError = None,
               Payload = (if fn = IntegrityLambda then accept_text else done_text)\<rparr>
      | _ \<Rightarrow> Inl (SdkError ''no invocation''))"

definition test_env :: env where
  "test_env = \<lparr>
     sqs_ReceiveMessage = (\<lambda>tr. Inr [order_message]),
     lambda_Invoke = test_Invoke,
     dynamodb_Scan = (\<lambda>tr. Inr [item_A, item_B, item_C]),
     rand_source = (\<lambda>tr. 7),
     json_Marshal = (\<lambda>v. if v = order_payload then Inr order_body
                           else Inl (SdkError ''unsupported value'')),
     json_Unmarshal_any = (\<lambda>b. if b = order_body then Inr order_payload
                                 else Inl (SdkError ''invalid character'')),
     json_Unmarshal_LambdaResponse =
       (\<lambda>b. if b = accept_text then Inr \<lparr>StatusCode = 200, ResponseBody = AnyString ''ok''\<rparr>
            else if b = reject_text then Inr \<lparr>StatusCode = 500, ResponseBody = AnyString ''tampered''\<rparr>
            else Inl (SdkError ''invalid character'')),
     json_Unmarshal_SNSWrapper = (\<lambda>b. Inl (SdkError ''invalid character'')),
     json_Unmarshal_map = (\<lambda>b. Inl (SdkError ''invalid character'')),
     attributevalue_UnmarshalMap = test_UnmarshalMap\<rparr>"

definition test_consumer :: SQSConsumer where
  "test_consumer = \<lparr>queueURL = ''queue'', tableName = ''lambdas''\<rparr>"

definition broken_message :: Message where
  "broken_message = \<lparr>Body = Some ''not json'', ReceiptHandle = Some ''rh-2'', MessageId = Some ''m-2''\<rparr>"

definition unacknowledgeable_message :: Message where
  "unacknowledgeable_message = \<lparr>Body = None, ReceiptHandle = None, MessageId = Some ''m-3''\<rparr>"

definition rejecting_env :: env where
  "rejecting_env =
     test_env\<lparr>lambda_Invoke := (\<lambda>tr. Inr \<lparr>FunctionError = None, Payload = reject_text\<rparr>)\<rparr>"

definition unhealthy_env :: env where
  "unhealthy_env = test_env\<lparr>dynamodb_Scan := (\<lambda>tr. Inr [item_C])\<rparr>"

definition bad_item_env :: env where
  "bad_item_env = test_env\<lparr>dynamodb_Scan := (\<lambda>tr. Inr [item_A, item_bad, item_B])\<rparr>"

definition failing_worker_env :: env where
  "failing_worker_env =
     test_env\<lparr>lambda_Invoke :=
       (\<lambda>tr. case rev tr of
               LambdaInvoke fn p # _ \<Rightarrow>
                 if fn = IntegrityLambda
                 then Inr \<lparr>FunctionError = None, Payload = accept_text\<rparr>
                 else Inr \<lparr>FunctionError = Some ''Unhandled'', Payload = ''{errorMessage:boom}''\<rparr>
             | _ \<Rightarrow> Inl (SdkError ''no invocation''))\<rparr>"

definition two_message_env :: env where
  "two_message_env = test_env\<lparr>sqs_ReceiveMessage := (\<lambda>tr. Inr [broken_message, order_message])\<rparr>"

definition receive_failing_env :: env where
  "receive_failing_env =
     test_env\<lparr>sqs_ReceiveMessage := (\<lambda>tr. Inl (SdkError ''request timeout''))\<rparr>"








section \<open>Properties of the building blocks\<close>

lemmas fixture_defs =
  test_env_def test_consumer_def test_Invoke_def test_UnmarshalMap_def
  order_message_def order_body_def order_payload_def accept_text_def reject_text_def done_text_def
  item_A_def item_B_def item_C_def item_bad_def lambda_A_def lambda_B_def

lemmas model_defs =
  processMessage_def handleBusinessLogic_def InvokeSync_def Scan_def deleteMessage_def
  rand_Intn_def Let_def Healthy_def IntegrityLambda_def

lemma run1: "processMessage test_env test_consumer [] order_message =
   [LambdaInvoke IntegrityLambda order_body, DynamoScan ''lambdas'', RandIntn 2,
    LambdaInvoke ''arn:B'' order_body, SqsDeleteMessage ''queue'' ''rh-1'']"
  by (simp add: model_defs fixture_defs flip: numeral_2_eq_2)

lemma emitted_append [simp]: "emitted tr (tr @ evs) = evs"
  by (simp add: emitted_def)

lemma filterItems_Inr_eq:
  "filterItems e items acc = Inr ls \<Longrightarrow>
     ls = acc @ filter (\<lambda>l. Status l = Healthy)
                 (map (\<lambda>item. projr (attributevalue_UnmarshalMap e item)) items)"
proof (induction items arbitrary: acc)
  case Nil
  then show ?case by simp
next
  case (Cons item items)
  from Cons.prems obtain l where l: "attributevalue_UnmarshalMap e item = Inr l"
    by (cases "attributevalue_UnmarshalMap e item") auto
  let ?acc = "if Status l = Healthy then acc @ [l] else acc"
  from Cons.prems l have "filterItems e items ?acc = Inr ls" by simp
  from Cons.IH [OF this] show ?case using l by simp
qed

lemma filterItems_Inr_all:
  "filterItems e items acc = Inr ls \<Longrightarrow> item \<in> set items \<Longrightarrow>
     \<exists>l. attributevalue_UnmarshalMap e item = Inr l"
proof (induction items arbitrary: acc)
  case Nil
  then show ?case by simp
next
  case (Cons a items)
  then show ?case by (cases "attributevalue_UnmarshalMap e a") (auto split: if_splits)
qed

lemma filterItems_Inl:
  "(\<exists>err. filterItems e items acc = Inl err) \<longleftrightarrow>
     (\<exists>item\<in>set items. \<exists>err. attributevalue_UnmarshalMap e item = Inl err)"
  by (induction items arbitrary: acc) (auto split: sum.splits)


lemma handleBusinessLogic_None:
  "handleBusinessLogic e c tr v = (None, tr') \<longleftrightarrow>
     (\<exists>bs out r items lambdas sel tr3 out'.
        json_Marshal e v = Inr bs \<and>
        lambda_Invoke e (tr @ [LambdaInvoke IntegrityLambda bs]) = Inr out \<and>
        FunctionError out = None \<and>
        json_Unmarshal_LambdaResponse e (Payload out) = Inr r \<and> StatusCode r = 200 \<and>
        dynamodb_Scan e (tr @ [LambdaInvoke IntegrityLambda bs, DynamoScan (tableName c)]) = Inr items \<and>
        filterItems e items [] = Inr lambdas \<and>
        selectLambda e (tr @ [LambdaInvoke IntegrityLambda bs, DynamoScan (tableName c)]) lambdas
          = (Inr sel, tr3) \<and>
        lambda_Invoke e (tr3 @ [LambdaInvoke (ARN sel) bs]) = Inr out' \<and>
        FunctionError out' = None \<and>
        tr' = tr3 @ [LambdaInvoke (ARN sel) bs])"
  unfolding handleBusinessLogic_def Scan_def Let_def InvokeSync_def
  by (auto split: prod.splits sum.splits if_splits option.splits)

lemma processMessage_decoded:
  "Body message = Some body \<Longrightarrow> json_Unmarshal_any e body = Inr v \<Longrightarrow>
   processMessage e c tr message =
     (case handleBusinessLogic e c tr v of
        (Some err, tr') \<Rightarrow> tr'
      | (None, tr') \<Rightarrow> deleteMessage e c tr' message)"
  by (simp add: processMessage_def)

lemma InvokeSync_trace:
  "InvokeSync e tr fn v = (res, tr1) \<Longrightarrow>
     tr1 = tr \<or> (\<exists>bs. json_Marshal e v = Inr bs \<and> tr1 = tr @ [LambdaInvoke fn bs])"
  by (auto simp: InvokeSync_def Let_def split: sum.splits option.splits)

lemma selectLambda_trace:
  "selectLambda e tr ls = (res, tr') \<Longrightarrow> tr' = tr \<or> tr' = tr @ [RandIntn (length ls)]"
  by (cases "(e, tr, ls)" rule: selectLambda.cases) (auto simp: rand_Intn_def Let_def)

lemma handleBusinessLogic_trace:
  assumes "handleBusinessLogic e c tr v = (res, tr')"
  shows "\<exists>evs. tr' = tr @ evs \<and> (\<forall>q h. SqsDeleteMessage q h \<notin> set evs)"
  using assms unfolding handleBusinessLogic_def Scan_def Let_def
  by (auto split: prod.splits sum.splits if_splits dest!: InvokeSync_trace selectLambda_trace)


section \<open>The claims\<close>

text \<open>
  Claim C1.  For a message whose body decodes, a \<open>DeleteMessage\<close> call is made exactly
  when the message has a receipt handle and every stage succeeded: the integrity Lambda
  was invoked without error and answered with status 200, the scan and the unmarshalling
  of its items succeeded, a healthy Lambda was selected and its invocation returned
  without a transport or function error.  The delete is then the last call of the run,
  directly after the dispatch, and no delete precedes it.  Hence a failure of the
  integrity gate, of the health filter or of the dispatch leaves the message
  unacknowledged.
\<close>

theorem C1_acknowledged_only_after_dispatch:
  assumes "Body message = Some body" and "json_Unmarshal_any e body = Inr v"
  shows "SqsDeleteMessage q h \<in> set (emitted tr (processMessage e c tr message)) \<longleftrightarrow>
     q = queueURL c \<and> ReceiptHandle message = Some h \<and>
     (\<exists>bs out r items lambdas sel tr3 out'.
        json_Marshal e v = Inr bs \<and>
        lambda_Invoke e (tr @ [LambdaInvoke IntegrityLambda bs]) = Inr out \<and>
        FunctionError out = None \<and>
        json_Unmarshal_LambdaResponse e (Payload out) = Inr r \<and> StatusCode r = 200 \<and>
        dynamodb_Scan e (tr @ [LambdaInvoke IntegrityLambda bs, DynamoScan (tableName c)]) = Inr items \<and>
        filterItems e items [] = Inr lambdas \<and>
        selectLambda e (tr @ [LambdaInvoke IntegrityLambda bs, DynamoScan (tableName c)]) lambdas
          = (Inr sel, tr3) \<and>
        lambda_Invoke e (tr3 @ [LambdaInvoke (ARN sel) bs]) = Inr out' \<and>
        FunctionError out' = None \<and>
        (\<forall>q' h'. SqsDeleteMessage q' h' \<notin> set (emitted tr tr3)) \<and>
        processMessage e c tr message = tr3 @ [LambdaInvoke (ARN sel) bs, SqsDeleteMessage q h])"
  (is "?L \<longleftrightarrow> ?R")
proof
  assume L: ?L
  obtain res tr' where hbl: "handleBusinessLogic e c tr v = (res, tr')"
    by (cases "handleBusinessLogic e c tr v")
  from handleBusinessLogic_trace [OF hbl] obtain evs where
    evs: "tr' = tr @ evs" "\<forall>q h. SqsDeleteMessage q h \<notin> set evs" by blast
  have pm: "processMessage e c tr message =
      (case res of Some err \<Rightarrow> tr' | None \<Rightarrow> deleteMessage e c tr' message)"
    using processMessage_decoded [OF assms, of c tr] hbl by (simp split: option.splits)
  have res: "res = None"
  proof (cases res)
    case (Some err)
    with pm evs L show ?thesis by simp
  qed simp
  with pm have pm': "processMessage e c tr message = deleteMessage e c tr' message" by simp
  from L pm' evs have hd: "ReceiptHandle message = Some h" "q = queueURL c"
    by (auto simp: deleteMessage_def split: option.splits)
  from hbl res have "handleBusinessLogic e c tr v = (None, tr')" by simp
  from iffD1 [OF handleBusinessLogic_None this]
  obtain bs out r items lambdas sel tr3 out' where st:
    "json_Marshal e v = Inr bs"
    "lambda_Invoke e (tr @ [LambdaInvoke IntegrityLambda bs]) = Inr out"
    "FunctionError out = None"
    "json_Unmarshal_LambdaResponse e (Payload out) = Inr r" "StatusCode r = 200"
    "dynamodb_Scan e (tr @ [LambdaInvoke IntegrityLambda bs, DynamoScan (tableName c)]) = Inr items"
    "filterItems e items [] = Inr lambdas"
    "selectLambda e (tr @ [LambdaInvoke IntegrityLambda bs, DynamoScan (tableName c)]) lambdas
       = (Inr sel, tr3)"
    "lambda_Invoke e (tr3 @ [LambdaInvoke (ARN sel) bs]) = Inr out'"
    "FunctionError out' = None"
    "tr' = tr3 @ [LambdaInvoke (ARN sel) bs]"
    by blast
  from selectLambda_trace [OF st(8)]
  have nd: "\<forall>q' h'. SqsDeleteMessage q' h' \<notin> set (emitted tr tr3)"
    by (auto simp: emitted_def)
  from pm' hd st(11)
  have "processMessage e c tr message = tr3 @ [LambdaInvoke (ARN sel) bs, SqsDeleteMessage q h]"
    by (simp add: deleteMessage_def)
  with st nd hd show ?R by blast
next
  assume R: ?R
  then obtain bs lambdas sel tr3 where
    s: "selectLambda e (tr @ [LambdaInvoke IntegrityLambda bs, DynamoScan (tableName c)]) lambdas
          = (Inr sel, tr3)"
    and pm: "processMessage e c tr message = tr3 @ [LambdaInvoke (ARN sel) bs, SqsDeleteMessage q h]"
    by blast
  from selectLambda_trace [OF s] pm show ?L by (auto simp: emitted_def)
qed

text \<open>The order message in the test world: it is deleted, right after the dispatch.\<close>

theorem C1_acknowledged_only_after_dispatch_witness:
  "Body order_message = Some order_body \<and>
   json_Unmarshal_any test_env order_body = Inr order_payload \<and>
   SqsDeleteMessage ''queue'' ''rh-1''
     \<in> set (emitted [] (processMessage test_env test_consumer [] order_message)) \<and>
   (\<exists>(sel::Lambda) tr3 bs. processMessage test_env test_consumer [] order_message
        = tr3 @ [LambdaInvoke (ARN sel) bs, SqsDeleteMessage ''queue'' ''rh-1''])"
proof -
  have b: "Body order_message = Some order_body" by (simp add: order_message_def)
  have u: "json_Unmarshal_any test_env order_body = Inr order_payload" by (simp add: test_env_def)
  have d: "SqsDeleteMessage ''queue'' ''rh-1''
     \<in> set (emitted [] (processMessage test_env test_consumer [] order_message))"
    by (simp add: run1 emitted_def)
  from iffD1 [OF C1_acknowledged_only_after_dispatch [OF b u, of "''queue''" "''rh-1''" "[]" test_consumer] d]
  have "\<exists>(sel::Lambda) tr3 bs. processMessage test_env test_consumer [] order_message
        = tr3 @ [LambdaInvoke (ARN sel) bs, SqsDeleteMessage ''queue'' ''rh-1'']"
    by blast
  with b u d show ?thesis by simp
qed

text \<open>
  Claim C2, as stated, fails for a message that has neither a body nor a receipt handle:
  \<open>deleteMessage\<close> returns before any \<open>DeleteMessage\<close> call, so the run makes no call at
  all and the message is not acknowledged.
\<close>

theorem C2_counterexample:
  "Body unacknowledgeable_message = None \<and>
   processMessage test_env test_consumer [] unacknowledgeable_message = []"
  by (simp add: processMessage_def deleteMessage_def unacknowledgeable_message_def)

text \<open>
  Claim C2, amended.  A message whose body is absent or does not parse under the
  consumer's format (any JSON for the pipeline consumer; the SNS wrapper and then its
  \<open>Message\<close> field for the consumer of consumer.go) makes exactly the calls of
  \<open>deleteMessage\<close>: one \<open>DeleteMessage\<close> when it has a receipt handle, none without one.
  In both cases no Lambda is invoked, neither the integrity Lambda nor a worker.
\<close>

theorem C2_undecodable_dropped:
  "(Body message = None \<or>
    (\<exists>body err. Body message = Some body \<and> json_Unmarshal_any e body = Inl err) \<longrightarrow>
      processMessage e c tr message =
        tr @ (case ReceiptHandle message of None \<Rightarrow> []
              | Some h \<Rightarrow> [SqsDeleteMessage (queueURL c) h])) \<and>
   (Body message = None \<or>
    (\<exists>body err. Body message = Some body \<and> json_Unmarshal_SNSWrapper e body = Inl err) \<or>
    (\<exists>body w err. Body message = Some body \<and> json_Unmarshal_SNSWrapper e body = Inr w \<and>
       json_Unmarshal_map e (sns_Message w) = Inl err) \<longrightarrow>
      processMessage_sns e c tr message =
        tr @ (case ReceiptHandle message of None \<Rightarrow> []
              | Some h \<Rightarrow> [SqsDeleteMessage (queueURL c) h]))"
  by (auto simp: processMessage_def processMessage_sns_def deleteMessage_def split: option.splits)

text \<open>
  A body that is not JSON, with a receipt handle: one delete and nothing else, in both
  consumers.
\<close>

theorem C2_undecodable_dropped_witness:
  "Body broken_message = Some ''not json'' \<and>
   json_Unmarshal_any test_env ''not json'' = Inl (SdkError ''invalid character'') \<and>
   json_Unmarshal_SNSWrapper test_env ''not json'' = Inl (SdkError ''invalid character'') \<and>
   processMessage test_env test_consumer [] broken_message = [SqsDeleteMessage ''queue'' ''rh-2''] \<and>
   processMessage_sns test_env test_consumer [] broken_message = [SqsDeleteMessage ''queue'' ''rh-2'']"
  using C2_undecodable_dropped [of broken_message test_env test_consumer "[]"]
  by (simp add: broken_message_def test_env_def test_consumer_def order_body_def)

text \<open>
  Claim C3.  For a decoded message, let \<open>InvokeSync\<close> on the integrity Lambda return
  \<open>res\<close> with history \<open>tr1\<close> (at most the one invocation added).  If the call failed, or
  its payload does not unmarshal into a \<open>LambdaResponse\<close>, or the status code is not 200,
  the run ends at \<open>tr1\<close>: no scan, no dispatch, no delete.  When the response unmarshals,
  the run goes on to the registry scan if and only if the status code is 200.
\<close>

theorem C3_integrity_gate:
  assumes "Body message = Some body" and "json_Unmarshal_any e body = Inr v"
    and "InvokeSync e tr IntegrityLambda v = (res, tr1)"
  shows "(\<forall>err. res = Inl err \<longrightarrow> processMessage e c tr message = tr1) \<and>
     (\<forall>payload err. res = Inr payload \<and> json_Unmarshal_LambdaResponse e payload = Inl err \<longrightarrow>
        processMessage e c tr message = tr1) \<and>
     (\<forall>payload r. res = Inr payload \<and> json_Unmarshal_LambdaResponse e payload = Inr r \<longrightarrow>
        (StatusCode r \<noteq> 200 \<longrightarrow> processMessage e c tr message = tr1) \<and>
        (StatusCode r = 200 \<longleftrightarrow>
           (\<exists>rest. processMessage e c tr message = tr1 @ DynamoScan (tableName c) # rest))) \<and>
     (\<forall>q h. SqsDeleteMessage q h \<notin> set (emitted tr tr1)) \<and>
     DynamoScan (tableName c) \<notin> set (emitted tr tr1)"
proof -
  have pm: "processMessage e c tr message =
      (case handleBusinessLogic e c tr v of
         (Some err, tr') \<Rightarrow> tr' | (None, tr') \<Rightarrow> deleteMessage e c tr' message)"
    by (rule processMessage_decoded [OF assms(1,2)])
  have a: "processMessage e c tr message = tr1" if "res = Inl err" for err
    using that assms(3) by (simp add: pm handleBusinessLogic_def)
  have b: "processMessage e c tr message = tr1"
    if "res = Inr payload" "json_Unmarshal_LambdaResponse e payload = Inl err" for payload err
    using that assms(3) by (simp add: pm handleBusinessLogic_def)
  have c: "processMessage e c tr message = tr1"
    if "res = Inr payload" "json_Unmarshal_LambdaResponse e payload = Inr r" "StatusCode r \<noteq> 200"
    for payload r
    using that assms(3) by (simp add: pm handleBusinessLogic_def)
  have d: "\<exists>rest. processMessage e c tr message = tr1 @ DynamoScan (tableName c) # rest"
    if "res = Inr payload" "json_Unmarshal_LambdaResponse e payload = Inr r" "StatusCode r = 200"
    for payload r
    using that assms(3) unfolding pm handleBusinessLogic_def Scan_def Let_def deleteMessage_def
    by (auto split: prod.splits sum.splits option.splits
             dest!: InvokeSync_trace selectLambda_trace)
  have e: "(\<forall>q h. SqsDeleteMessage q h \<notin> set (emitted tr tr1)) \<and>
     DynamoScan (tableName c) \<notin> set (emitted tr tr1)"
    using InvokeSync_trace [OF assms(3)] by (auto simp: emitted_def)
  have f: "StatusCode r = 200"
    if "res = Inr payload" "json_Unmarshal_LambdaResponse e payload = Inr r"
       "processMessage e c tr message = tr1 @ DynamoScan (tableName c) # rest"
    for payload r rest
    using c [OF that(1,2)] that(3) by auto
  from a b c d e f show ?thesis by blast
qed


text \<open>
  The integrity Lambda answers with status 500: the run is the one invocation.  It
  answers with status 200: the run goes on with the scan.
\<close>

theorem C3_integrity_gate_witness:
  "Body order_message = Some order_body \<and>
   json_Unmarshal_any rejecting_env order_body = Inr order_payload \<and>
   InvokeSync rejecting_env [] IntegrityLambda order_payload
     = (Inr reject_text, [LambdaInvoke IntegrityLambda order_body]) \<and>
   json_Unmarshal_LambdaResponse rejecting_env reject_text
     = Inr \<lparr>StatusCode = 500, ResponseBody = AnyString ''tampered''\<rparr> \<and>
   processMessage rejecting_env test_consumer [] order_message
     = [LambdaInvoke IntegrityLambda order_body] \<and>
   json_Unmarshal_any test_env order_body = Inr order_payload \<and>
   InvokeSync test_env [] IntegrityLambda order_payload
     = (Inr accept_text, [LambdaInvoke IntegrityLambda order_body]) \<and>
   json_Unmarshal_LambdaResponse test_env accept_text
     = Inr \<lparr>StatusCode = 200, ResponseBody = AnyString ''ok''\<rparr> \<and>
   (\<exists>rest. processMessage test_env test_consumer [] order_message
      = [LambdaInvoke IntegrityLambda order_body, DynamoScan ''lambdas''] @ rest)"
proof -
  have b: "Body order_message = Some order_body" by (simp add: order_message_def)
  have u: "json_Unmarshal_any rejecting_env order_body = Inr order_payload"
    by (simp add: rejecting_env_def test_env_def)
  have i: "InvokeSync rejecting_env [] IntegrityLambda order_payload
     = (Inr reject_text, [LambdaInvoke IntegrityLambda order_body])"
    by (simp add: InvokeSync_def rejecting_env_def test_env_def)
  have r: "json_Unmarshal_LambdaResponse rejecting_env reject_text
     = Inr \<lparr>StatusCode = 500, ResponseBody = AnyString ''tampered''\<rparr>"
    by (simp add: rejecting_env_def test_env_def reject_text_def accept_text_def)
  from C3_integrity_gate [OF b u i, of test_consumer] r
  have rejected: "processMessage rejecting_env test_consumer [] order_message
     = [LambdaInvoke IntegrityLambda order_body]"
    by simp
  have u': "json_Unmarshal_any test_env order_body = Inr order_payload"
    by (simp add: test_env_def)
  have i': "InvokeSync test_env [] IntegrityLambda order_payload
     = (Inr accept_text, [LambdaInvoke IntegrityLambda order_body])"
    by (simp add: InvokeSync_def test_env_def test_Invoke_def)
  have r': "json_Unmarshal_LambdaResponse test_env accept_text
     = Inr \<lparr>StatusCode = 200, ResponseBody = AnyString ''ok''\<rparr>"
    by (simp add: test_env_def)
  from C3_integrity_gate [OF b u' i', of test_consumer] r'
  have accepted: "\<exists>rest. processMessage test_env test_consumer [] order_message
      = [LambdaInvoke IntegrityLambda order_body, DynamoScan ''lambdas''] @ rest"
    by (simp add: test_consumer_def)
  from b u i r rejected u' i' r' accepted show ?thesis by simp
qed

text \<open>
  Claim C4.  When the integrity gate has passed and the scan returns items of which none
  unmarshals to a descriptor with status \<open>Healthy\<close>, the run consists of the integrity
  invocation and the scan only: no worker is invoked and no \<open>DeleteMessage\<close> is sent, and
  \<open>handleBusinessLogic\<close> returns an error.
\<close>

theorem C4_no_healthy_worker:
  assumes "Body message = Some body" and "json_Unmarshal_any e body = Inr v"
    and "json_Marshal e v = Inr bs"
    and "lambda_Invoke e (tr @ [LambdaInvoke IntegrityLambda bs]) = Inr out"
    and "FunctionError out = None"
    and "json_Unmarshal_LambdaResponse e (Payload out) = Inr r" and "StatusCode r = 200"
    and "dynamodb_Scan e (tr @ [LambdaInvoke IntegrityLambda bs, DynamoScan (tableName c)])
           = Inr items"
    and "\<forall>item\<in>set items. \<forall>l. attributevalue_UnmarshalMap e item = Inr l \<longrightarrow> Status l \<noteq> Healthy"
  shows "processMessage e c tr message
           = tr @ [LambdaInvoke IntegrityLambda bs, DynamoScan (tableName c)] \<and>
         fst (handleBusinessLogic e c tr v) \<noteq> None"
proof -
  have nil: "lambdas = []" if "filterItems e items [] = Inr lambdas" for lambdas
  proof -
    have "filter (\<lambda>l. Status l = Healthy)
            (map (\<lambda>item. projr (attributevalue_UnmarshalMap e item)) items) = []"
      unfolding filter_empty_conv
    proof
      fix l assume "l \<in> set (map (\<lambda>item. projr (attributevalue_UnmarshalMap e item)) items)"
      then obtain item where it: "item \<in> set items"
        and l: "l = projr (attributevalue_UnmarshalMap e item)" by auto
      from filterItems_Inr_all [OF that it] l
      have "attributevalue_UnmarshalMap e item = Inr l" by auto
      with assms(9) it show "\<not> Status l = Healthy" by blast
    qed
    with filterItems_Inr_eq [OF that] show ?thesis by simp
  qed
  have "handleBusinessLogic e c tr v
          = (fst (handleBusinessLogic e c tr v),
             tr @ [LambdaInvoke IntegrityLambda bs, DynamoScan (tableName c)]) \<and>
        fst (handleBusinessLogic e c tr v) \<noteq> None"
    using assms(3-8) nil
    unfolding handleBusinessLogic_def InvokeSync_def Scan_def Let_def
    by (auto split: sum.splits)
  then show ?thesis
    using processMessage_decoded [OF assms(1,2), of c tr]
    by (cases "handleBusinessLogic e c tr v") auto
qed

text \<open>
  A registry holding only the failing worker.
\<close>

theorem C4_no_healthy_worker_witness:
  "Body order_message = Some order_body \<and>
   dynamodb_Scan unhealthy_env [LambdaInvoke IntegrityLambda order_body, DynamoScan ''lambdas'']
     = Inr [item_C] \<and>
   attributevalue_UnmarshalMap unhealthy_env item_C
     = Inr \<lparr>ID = ''C'', ARN = ''arn:C'', URL = [], Status = Unhealthy, Name = ''worker-c'',
            LastHeartBeat = []\<rparr> \<and>
   processMessage unhealthy_env test_consumer [] order_message
     = [LambdaInvoke IntegrityLambda order_body, DynamoScan ''lambdas'']"
proof -
  have b: "Body order_message = Some order_body" by (simp add: order_message_def)
  have u: "json_Unmarshal_any unhealthy_env order_body = Inr order_payload"
    by (simp add: unhealthy_env_def test_env_def)
  have m: "json_Marshal unhealthy_env order_payload = Inr order_body"
    by (simp add: unhealthy_env_def test_env_def)
  have i: "lambda_Invoke unhealthy_env ([] @ [LambdaInvoke IntegrityLambda order_body])
      = Inr \<lparr>FunctionError = None, Payload = accept_text\<rparr>"
    by (simp add: unhealthy_env_def test_env_def test_Invoke_def)
  have f: "FunctionError \<lparr>FunctionError = None, Payload = accept_text\<rparr> = None" by simp
  have r: "json_Unmarshal_LambdaResponse unhealthy_env
             (Payload \<lparr>FunctionError = None, Payload = accept_text\<rparr>)
      = Inr \<lparr>StatusCode = 200, ResponseBody = AnyString ''ok''\<rparr>"
    by (simp add: unhealthy_env_def test_env_def)
  have st: "StatusCode \<lparr>StatusCode = 200, ResponseBody = AnyString ''ok''\<rparr> = 200" by simp
  have s: "dynamodb_Scan unhealthy_env
        ([] @ [LambdaInvoke IntegrityLambda order_body, DynamoScan (tableName test_consumer)])
      = Inr [item_C]"
    by (simp add: unhealthy_env_def)
  have c: "attributevalue_UnmarshalMap unhealthy_env item_C
     = Inr \<lparr>ID = ''C'', ARN = ''arn:C'', URL = [], Status = Unhealthy, Name = ''worker-c'',
            LastHeartBeat = []\<rparr>"
    by (simp add: unhealthy_env_def test_env_def test_UnmarshalMap_def item_C_def Unhealthy_def)
  have h: "\<forall>item\<in>set [item_C]. \<forall>l. attributevalue_UnmarshalMap unhealthy_env item = Inr l
             \<longrightarrow> Status l \<noteq> Healthy"
    by (simp add: c Healthy_def Unhealthy_def)
  from C4_no_healthy_worker [OF b u m i f r st s h]
  have "processMessage unhealthy_env test_consumer [] order_message
     = [LambdaInvoke IntegrityLambda order_body, DynamoScan ''lambdas'']"
    by (simp add: test_consumer_def)
  with b s c show ?thesis by (simp add: test_consumer_def)
qed

text \<open>
  Claim C9.  When the integrity gate has passed and some scanned item fails to unmarshal,
  \<open>handleBusinessLogic\<close> returns the unmarshal error and the run consists of the integrity
  invocation and the scan only, whatever the other items are: no worker is invoked and
  the message is not deleted.
\<close>

theorem C9_item_unmarshal_failure_aborts:
  assumes "Body message = Some body" and "json_Unmarshal_any e body = Inr v"
    and "json_Marshal e v = Inr bs"
    and "lambda_Invoke e (tr @ [LambdaInvoke IntegrityLambda bs]) = Inr out"
    and "FunctionError out = None"
    and "json_Unmarshal_LambdaResponse e (Payload out) = Inr r" and "StatusCode r = 200"
    and "dynamodb_Scan e (tr @ [LambdaInvoke IntegrityLambda bs, DynamoScan (tableName c)])
           = Inr items"
    and "item \<in> set items" and "attributevalue_UnmarshalMap e item = Inl err"
  shows "(\<exists>err'. handleBusinessLogic e c tr v
            = (Some (ErrUnmarshalItem err'),
               tr @ [LambdaInvoke IntegrityLambda bs, DynamoScan (tableName c)])) \<and>
         processMessage e c tr message
           = tr @ [LambdaInvoke IntegrityLambda bs, DynamoScan (tableName c)]"
proof -
  from assms(9,10) obtain err' where fi: "filterItems e items [] = Inl err'"
    using filterItems_Inl [of e items "[]"] by blast
  have hbl: "handleBusinessLogic e c tr v
            = (Some (ErrUnmarshalItem err'),
               tr @ [LambdaInvoke IntegrityLambda bs, DynamoScan (tableName c)])"
    using assms(3-8) fi
    unfolding handleBusinessLogic_def InvokeSync_def Scan_def Let_def by simp
  with processMessage_decoded [OF assms(1,2), of c tr] show ?thesis by simp
qed


text \<open>
  A malformed item between two well-formed healthy ones.
\<close>

theorem C9_item_unmarshal_failure_aborts_witness:
  "Body order_message = Some order_body \<and>
   dynamodb_Scan bad_item_env [LambdaInvoke IntegrityLambda order_body, DynamoScan ''lambdas'']
     = Inr [item_A, item_bad, item_B] \<and>
   attributevalue_UnmarshalMap bad_item_env item_A = Inr lambda_A \<and> Status lambda_A = Healthy \<and>
   attributevalue_UnmarshalMap bad_item_env item_B = Inr lambda_B \<and> Status lambda_B = Healthy \<and>
   attributevalue_UnmarshalMap bad_item_env item_bad = Inl (SdkError ''unmarshal failed'') \<and>
   processMessage bad_item_env test_consumer [] order_message
     = [LambdaInvoke IntegrityLambda order_body, DynamoScan ''lambdas'']"
proof -
  have b: "Body order_message = Some order_body" by (simp add: order_message_def)
  have u: "json_Unmarshal_any bad_item_env order_body = Inr order_payload"
    by (simp add: bad_item_env_def test_env_def)
  have m: "json_Marshal bad_item_env order_payload = Inr order_body"
    by (simp add: bad_item_env_def test_env_def)
  have i: "lambda_Invoke bad_item_env ([] @ [LambdaInvoke IntegrityLambda order_body])
      = Inr \<lparr>FunctionError = None, Payload = accept_text\<rparr>"
    by (simp add: bad_item_env_def test_env_def test_Invoke_def)
  have f: "FunctionError \<lparr>FunctionError = None, Payload = accept_text\<rparr> = None" by simp
  have r: "json_Unmarshal_LambdaResponse bad_item_env
             (Payload \<lparr>FunctionError = None, Payload = accept_text\<rparr>)
      = Inr \<lparr>StatusCode = 200, ResponseBody = AnyString ''ok''\<rparr>"
    by (simp add: bad_item_env_def test_env_def)
  have st: "StatusCode \<lparr>StatusCode = 200, ResponseBody = AnyString ''ok''\<rparr> = 200" by simp
  have s: "dynamodb_Scan bad_item_env
        ([] @ [LambdaInvoke IntegrityLambda order_body, DynamoScan (tableName test_consumer)])
      = Inr [item_A, item_bad, item_B]"
    by (simp add: bad_item_env_def)
  have mem: "item_bad \<in> set [item_A, item_bad, item_B]" by simp
  have bad: "attributevalue_UnmarshalMap bad_item_env item_bad = Inl (SdkError ''unmarshal failed'')"
    by (simp add: bad_item_env_def test_env_def test_UnmarshalMap_def item_bad_def)
  have a: "attributevalue_UnmarshalMap bad_item_env item_A = Inr lambda_A \<and> Status lambda_A = Healthy"
    by (simp add: bad_item_env_def test_env_def test_UnmarshalMap_def item_A_def lambda_A_def Healthy_def)
  have bb: "attributevalue_UnmarshalMap bad_item_env item_B = Inr lambda_B \<and> Status lambda_B = Healthy"
    by (simp add: bad_item_env_def test_env_def test_UnmarshalMap_def item_B_def lambda_B_def Healthy_def)
  from C9_item_unmarshal_failure_aborts [OF b u m i f r st s mem bad]
  have "processMessage bad_item_env test_consumer [] order_message
     = [LambdaInvoke IntegrityLambda order_body, DynamoScan ''lambdas'']"
    by (simp add: test_consumer_def)
  with b s bad a bb show ?thesis by (simp add: test_consumer_def)
qed

text \<open>
  Claim C6.  After the gate, the scan and the selection of \<open>sel\<close>, the next call is the
  invocation of \<open>ARN sel\<close> with \<open>bs\<close>, the marshalled decoded message, the same bytes
  that were sent to the integrity Lambda; the integrity response does not enter it.  If
  that invocation returns a transport error, or a response carrying a function error,
  the run ends there and contains no \<open>DeleteMessage\<close>.
\<close>

theorem C6_dispatch:
  assumes "Body message = Some body" and "json_Unmarshal_any e body = Inr v"
    and "json_Marshal e v = Inr bs"
    and "lambda_Invoke e (tr @ [LambdaInvoke IntegrityLambda bs]) = Inr out"
    and "FunctionError out = None"
    and "json_Unmarshal_LambdaResponse e (Payload out) = Inr r" and "StatusCode r = 200"
    and "dynamodb_Scan e (tr @ [LambdaInvoke IntegrityLambda bs, DynamoScan (tableName c)])
           = Inr items"
    and "filterItems e items [] = Inr lambdas"
    and "selectLambda e (tr @ [LambdaInvoke IntegrityLambda bs, DynamoScan (tableName c)]) lambdas
           = (Inr sel, tr3)"
  shows "(\<exists>rest. processMessage e c tr message = tr3 @ LambdaInvoke (ARN sel) bs # rest) \<and>
     ((\<exists>err. lambda_Invoke e (tr3 @ [LambdaInvoke (ARN sel) bs]) = Inl err) \<or>
      (\<exists>out' fe. lambda_Invoke e (tr3 @ [LambdaInvoke (ARN sel) bs]) = Inr out' \<and>
         FunctionError out' = Some fe) \<longrightarrow>
        processMessage e c tr message = tr3 @ [LambdaInvoke (ARN sel) bs] \<and>
        (\<forall>q h. SqsDeleteMessage q h \<notin> set (emitted tr (processMessage e c tr message))))"
proof -
  let ?tr4 = "tr3 @ [LambdaInvoke (ARN sel) bs]"
  have hbl: "handleBusinessLogic e c tr v =
      (case InvokeSync e tr3 (ARN sel) v of
         (Inl err, tr4) \<Rightarrow> (Some (ErrInvokingSelected (ARN sel) err), tr4)
       | (Inr responseBytes, tr4) \<Rightarrow> (None, tr4))"
    using assms(3-10) unfolding handleBusinessLogic_def Scan_def Let_def
    by (simp add: InvokeSync_def [of e tr] Let_def)
  have snd4: "snd (InvokeSync e tr3 (ARN sel) v) = ?tr4"
    using assms(3) by (simp add: InvokeSync_def Let_def split: sum.splits option.splits)
  have pm: "processMessage e c tr message =
      (case InvokeSync e tr3 (ARN sel) v of
         (Inl err, tr4) \<Rightarrow> tr4 | (Inr responseBytes, tr4) \<Rightarrow> deleteMessage e c tr4 message)"
    unfolding processMessage_decoded [OF assms(1,2), of c tr] hbl
    by (cases "InvokeSync e tr3 (ARN sel) v") (simp split: sum.splits)
  have first: "\<exists>rest. processMessage e c tr message = tr3 @ LambdaInvoke (ARN sel) bs # rest"
    using snd4 unfolding pm
    by (cases "InvokeSync e tr3 (ARN sel) v")
       (auto simp: deleteMessage_def split: sum.splits option.splits)
  have fail: "processMessage e c tr message = ?tr4"
    if "(\<exists>err. lambda_Invoke e ?tr4 = Inl err) \<or>
        (\<exists>out' fe. lambda_Invoke e ?tr4 = Inr out' \<and> FunctionError out' = Some fe)"
    using that assms(3) unfolding pm by (auto simp: InvokeSync_def Let_def)
  have nodel: "\<forall>q h. SqsDeleteMessage q h \<notin> set (emitted tr ?tr4)"
    using selectLambda_trace [OF assms(10)] by (auto simp: emitted_def)
  from first fail nodel show ?thesis by auto
qed

text \<open>
  The selected worker answers with a function error: the message stays in the queue.
\<close>

theorem C6_dispatch_witness:
  "Body order_message = Some order_body \<and>
   json_Marshal failing_worker_env order_payload = Inr order_body \<and>
   selectLambda failing_worker_env
       [LambdaInvoke IntegrityLambda order_body, DynamoScan ''lambdas''] [lambda_A, lambda_B]
     = (Inr lambda_B,
        [LambdaInvoke IntegrityLambda order_body, DynamoScan ''lambdas'', RandIntn 2]) \<and>
   lambda_Invoke failing_worker_env
       [LambdaInvoke IntegrityLambda order_body, DynamoScan ''lambdas'', RandIntn 2,
        LambdaInvoke ''arn:B'' order_body]
     = Inr \<lparr>FunctionError = Some ''Unhandled'', Payload = ''{errorMessage:boom}''\<rparr> \<and>
   processMessage failing_worker_env test_consumer [] order_message
     = [LambdaInvoke IntegrityLambda order_body, DynamoScan ''lambdas'', RandIntn 2,
        LambdaInvoke ''arn:B'' order_body]"
proof -
  let ?e = failing_worker_env
  let ?tr2 = "[LambdaInvoke IntegrityLambda order_body, DynamoScan ''lambdas'']"
  have b: "Body order_message = Some order_body" by (simp add: order_message_def)
  have u: "json_Unmarshal_any ?e order_body = Inr order_payload"
    by (simp add: failing_worker_env_def test_env_def)
  have m: "json_Marshal ?e order_payload = Inr order_body"
    by (simp add: failing_worker_env_def test_env_def)
  have i: "lambda_Invoke ?e ([] @ [LambdaInvoke IntegrityLambda order_body])
      = Inr \<lparr>FunctionError = None, Payload = accept_text\<rparr>"
    by (simp add: failing_worker_env_def)
  have f: "FunctionError \<lparr>FunctionError = None, Payload = accept_text\<rparr> = None" by simp
  have r: "json_Unmarshal_LambdaResponse ?e (Payload \<lparr>FunctionError = None, Payload = accept_text\<rparr>)
      = Inr \<lparr>StatusCode = 200, ResponseBody = AnyString ''ok''\<rparr>"
    by (simp add: failing_worker_env_def test_env_def)
  have st: "StatusCode \<lparr>StatusCode = 200, ResponseBody = AnyString ''ok''\<rparr> = 200" by simp
  have s: "dynamodb_Scan ?e
        ([] @ [LambdaInvoke IntegrityLambda order_body, DynamoScan (tableName test_consumer)])
      = Inr [item_A, item_B, item_C]"
    by (simp add: failing_worker_env_def test_env_def)
  have fi: "filterItems ?e [item_A, item_B, item_C] [] = Inr [lambda_A, lambda_B]"
    by (simp add: failing_worker_env_def test_env_def test_UnmarshalMap_def
          item_A_def item_B_def item_C_def lambda_A_def lambda_B_def Healthy_def)
  have sl: "selectLambda ?e
       ([] @ [LambdaInvoke IntegrityLambda order_body, DynamoScan (tableName test_consumer)])
       [lambda_A, lambda_B]
     = (Inr lambda_B, ?tr2 @ [RandIntn 2])"
    by (simp add: rand_Intn_def failing_worker_env_def test_env_def test_consumer_def
          flip: numeral_2_eq_2)
  have w: "lambda_Invoke ?e ((?tr2 @ [RandIntn 2]) @ [LambdaInvoke (ARN lambda_B) order_body])
     = Inr \<lparr>FunctionError = Some ''Unhandled'', Payload = ''{errorMessage:boom}''\<rparr>"
    by (simp add: failing_worker_env_def lambda_B_def IntegrityLambda_def)
  have fe: "FunctionError \<lparr>FunctionError = Some ''Unhandled'', Payload = ''{errorMessage:boom}''\<rparr>
      = Some ''Unhandled''" by simp
  from C6_dispatch [OF b u m i f r st s fi sl] w fe
  have "processMessage ?e test_consumer [] order_message
     = (?tr2 @ [RandIntn 2]) @ [LambdaInvoke (ARN lambda_B) order_body]"
    by blast
  with b m sl w show ?thesis by (simp add: test_consumer_def lambda_B_def)
qed






lemma processMessage_extends: "\<exists>evs. processMessage e c tr message = tr @ evs"
proof (cases "\<exists>body v. Body message = Some body \<and> json_Unmarshal_any e body = Inr v")
  case True
  then obtain body v where d: "Body message = Some body" "json_Unmarshal_any e body = Inr v"
    by blast
  obtain res tr' where h: "handleBusinessLogic e c tr v = (res, tr')"
    by (cases "handleBusinessLogic e c tr v")
  from handleBusinessLogic_trace [OF h] obtain evs where "tr' = tr @ evs" by blast
  with processMessage_decoded [OF d, of c tr] h show ?thesis
    by (cases res) (auto simp: deleteMessage_def split: option.splits)
next
  case False
  then show ?thesis
    by (auto simp: processMessage_def deleteMessage_def split: option.splits sum.splits)
qed

lemma processMessages_foldl:
  "processMessages e c tr messages = foldl (processMessage e c) tr messages"
  by (induction messages arbitrary: tr) simp_all

lemma foldl_processMessage_extends:
  "\<exists>evs. foldl (processMessage e c) tr messages = tr @ evs"
proof (induction messages arbitrary: tr)
  case Nil
  show ?case by simp
next
  case (Cons m ms)
  obtain evs1 where 1: "processMessage e c tr m = tr @ evs1"
    using processMessage_extends by blast
  obtain evs2 where "foldl (processMessage e c) (tr @ evs1) ms = (tr @ evs1) @ evs2"
    using Cons.IH by blast
  with 1 show ?case by simp
qed

text \<open>
  Claim C7.  A poll cycle first calls \<open>ReceiveMessage\<close> with a maximum of 10 messages
  (20 s wait, 30 s visibility timeout).  If the call fails, the only further call is a
  sleep of 5 s.  If it succeeds, the cycle is the left fold of \<open>processMessage\<close> over the
  batch: each message is processed from the history left by the messages before it, its
  calls form one block, and the calls of the later messages follow that block.
\<close>

theorem C7_poll_cycle:
  "(\<exists>evs. pollMessages e c tr = tr @ SqsReceiveMessage (queueURL c) 10 20 30 # evs) \<and>
   (\<forall>err. sqs_ReceiveMessage e (tr @ [SqsReceiveMessage (queueURL c) 10 20 30]) = Inl err \<longrightarrow>
      pollMessages e c tr = tr @ [SqsReceiveMessage (queueURL c) 10 20 30, Sleep 5]) \<and>
   (\<forall>messages. sqs_ReceiveMessage e (tr @ [SqsReceiveMessage (queueURL c) 10 20 30]) = Inr messages \<longrightarrow>
      pollMessages e c tr
        = foldl (processMessage e c) (tr @ [SqsReceiveMessage (queueURL c) 10 20 30]) messages \<and>
      (\<forall>before message after. messages = before @ message # after \<longrightarrow>
         (\<exists>evs rest.
            processMessage e c
                (foldl (processMessage e c) (tr @ [SqsReceiveMessage (queueURL c) 10 20 30]) before)
                message
              = foldl (processMessage e c) (tr @ [SqsReceiveMessage (queueURL c) 10 20 30]) before
                  @ evs \<and>
            pollMessages e c tr
              = foldl (processMessage e c) (tr @ [SqsReceiveMessage (queueURL c) 10 20 30]) before
                  @ evs @ rest)))"
proof -
  let ?recv = "SqsReceiveMessage (queueURL c) 10 20 30"
  let ?tr1 = "tr @ [?recv]"
  have fail: "pollMessages e c tr = tr @ [?recv, Sleep 5]"
    if "sqs_ReceiveMessage e ?tr1 = Inl err" for err
    using that by (simp add: pollMessages_def Let_def)
  have ok: "pollMessages e c tr = foldl (processMessage e c) ?tr1 messages"
    if "sqs_ReceiveMessage e ?tr1 = Inr messages" for messages
    using that by (simp add: pollMessages_def Let_def processMessages_foldl)
  have first: "\<exists>evs. pollMessages e c tr = tr @ ?recv # evs"
  proof (cases "sqs_ReceiveMessage e ?tr1")
    case (Inl err)
    from fail [OF this] show ?thesis by simp
  next
    case (Inr messages)
    obtain evs where "foldl (processMessage e c) ?tr1 messages = ?tr1 @ evs"
      using foldl_processMessage_extends by blast
    with ok [OF Inr] show ?thesis by simp
  qed
  have seg: "\<exists>evs rest.
      processMessage e c (foldl (processMessage e c) ?tr1 before) message
        = foldl (processMessage e c) ?tr1 before @ evs \<and>
      pollMessages e c tr = foldl (processMessage e c) ?tr1 before @ evs @ rest"
    if r: "sqs_ReceiveMessage e ?tr1 = Inr messages" and m: "messages = before @ message # after"
    for messages before message after
  proof -
    let ?h = "foldl (processMessage e c) ?tr1 before"
    obtain evs where 1: "processMessage e c ?h message = ?h @ evs"
      using processMessage_extends by blast
    obtain rest where 2: "foldl (processMessage e c) (?h @ evs) after = (?h @ evs) @ rest"
      using foldl_processMessage_extends by blast
    have "pollMessages e c tr = ?h @ evs @ rest"
      unfolding ok [OF r] m using 1 2 by simp
    with 1 show ?thesis by blast
  qed
  from first fail ok seg show ?thesis by blast
qed

text \<open>
  A failing receive, and a batch of a broken message followed by the order message.
\<close>

theorem C7_poll_cycle_witness:
  "sqs_ReceiveMessage receive_failing_env [SqsReceiveMessage ''queue'' 10 20 30]
     = Inl (SdkError ''request timeout'') \<and>
   pollMessages receive_failing_env test_consumer []
     = [SqsReceiveMessage ''queue'' 10 20 30, Sleep 5] \<and>
   sqs_ReceiveMessage two_message_env [SqsReceiveMessage ''queue'' 10 20 30]
     = Inr [broken_message, order_message] \<and>
   pollMessages two_message_env test_consumer []
     = [SqsReceiveMessage ''queue'' 10 20 30,
        SqsDeleteMessage ''queue'' ''rh-2'',
        LambdaInvoke IntegrityLambda order_body, DynamoScan ''lambdas'', RandIntn 2,
        LambdaInvoke ''arn:B'' order_body, SqsDeleteMessage ''queue'' ''rh-1'']"
proof -
  let ?recv = "SqsReceiveMessage (queueURL test_consumer) 10 20 30"
  have q: "queueURL test_consumer = ''queue''" by (simp add: test_consumer_def)
  have f: "sqs_ReceiveMessage receive_failing_env ([] @ [?recv]) = Inl (SdkError ''request timeout'')"
    by (simp add: receive_failing_env_def)
  have r: "sqs_ReceiveMessage two_message_env ([] @ [?recv]) = Inr [broken_message, order_message]"
    by (simp add: two_message_env_def)
  have p1: "processMessage two_message_env test_consumer [?recv] broken_message
      = [?recv, SqsDeleteMessage ''queue'' ''rh-2'']"
    by (simp add: processMessage_def deleteMessage_def two_message_env_def test_env_def
          broken_message_def order_body_def test_consumer_def)
  have p2: "processMessage two_message_env test_consumer
        [?recv, SqsDeleteMessage ''queue'' ''rh-2''] order_message
      = [?recv, SqsDeleteMessage ''queue'' ''rh-2'',
         LambdaInvoke IntegrityLambda order_body, DynamoScan ''lambdas'', RandIntn 2,
         LambdaInvoke ''arn:B'' order_body, SqsDeleteMessage ''queue'' ''rh-1'']"
    by (simp add: model_defs fixture_defs two_message_env_def flip: numeral_2_eq_2)
  from C7_poll_cycle [of receive_failing_env test_consumer "[]"] f
  have a: "pollMessages receive_failing_env test_consumer [] = [] @ [?recv, Sleep 5]"
    by blast
  from C7_poll_cycle [of two_message_env test_consumer "[]"] r
  have "pollMessages two_message_env test_consumer []
      = foldl (processMessage two_message_env test_consumer) ([] @ [?recv])
          [broken_message, order_message]"
    by blast
  then have b: "pollMessages two_message_env test_consumer []
      = [?recv, SqsDeleteMessage ''queue'' ''rh-2'',
         LambdaInvoke IntegrityLambda order_body, DynamoScan ''lambdas'', RandIntn 2,
         LambdaInvoke ''arn:B'' order_body, SqsDeleteMessage ''queue'' ''rh-1'']"
    by (simp add: p1 p2)
  from a b f r show ?thesis by (simp add: q)
qed











end
